theory Spec2Isabelle
  imports Main "HOL-Library.Sublist"
begin

section \<open>Two development HTTP servers: \<^verbatim>\<open>spa-server.py\<close> and \<^verbatim>\<open>debug_server.py\<close>\<close>

text \<open>
  Both programs subclass \<^verbatim>\<open>http.server.SimpleHTTPRequestHandler\<close> of the Python
  standard library and override a few of its methods. The overriding methods are
  translated from the two source files. What they call in the standard library is
  modelled next to them: the parts that are plain string or buffer manipulation are
  written out (the header buffer, \<^verbatim>\<open>send_response\<close>, \<^verbatim>\<open>send_error\<close>, \<^verbatim>\<open>send_head\<close>,
  \<^verbatim>\<open>posixpath.basename\<close>, the URL split of a request target in origin form), and
  the parts that depend on the machine or are large tables (the file system, the
  percent-decoding inside \<^verbatim>\<open>translate_path\<close>, \<^verbatim>\<open>mimetypes\<close>, \<^verbatim>\<open>int\<close>, the clock, the
  ports in use) are fields of a record \<open>world\<close>, so that every theorem holds for
  whatever they compute.

  Strings are byte strings: \<^verbatim>\<open>BaseHTTPRequestHandler\<close> decodes the request line as
  ISO-8859-1, one character per byte.
\<close>

subsection \<open>Python strings\<close>

text \<open>\<^verbatim>\<open>s.endswith(suf)\<close>, \<^verbatim>\<open>s.startswith(pre)\<close> and \<^verbatim>\<open>sub in s\<close>.\<close>

definition endswith :: "string \<Rightarrow> string \<Rightarrow> bool" where
  "endswith s suf = suffix suf s"

definition startswith :: "string \<Rightarrow> string \<Rightarrow> bool" where
  "startswith s pre = prefix pre s"

fun str_contains :: "string \<Rightarrow> string \<Rightarrow> bool" where
  "str_contains sub [] = (sub = [])"
| "str_contains sub (c # cs) = (prefix sub (c # cs) \<or> str_contains sub cs)"

text \<open>\<^verbatim>\<open>str(n)\<close> for a natural number: its decimal digits.\<close>

definition digit_char :: "nat \<Rightarrow> char" where
  "digit_char d = ''0123456789'' ! d"

fun str_nat :: "nat \<Rightarrow> string" where
  "str_nat n = (if n < 10 then [digit_char n] else str_nat (n div 10) @ [digit_char (n mod 10)])"

declare str_nat.simps [simp del]

subsection \<open>\<^verbatim>\<open>DebugHTTPRequestHandler.guess_type\<close>\<close>

text \<open>
  \<^verbatim>\<open>
  def guess_type(self, path):
      if path.endswith('.js'):     return 'application/javascript'
      elif path.endswith('.css'):  return 'text/css'
      elif path.endswith('.json'): return 'application/json'
      elif path.endswith('.svg'):  return 'image/svg+xml'
      return super().guess_type(path)
  \<close>
  The first argument is the inherited \<^verbatim>\<open>guess_type\<close>.
\<close>

definition debug_guess_type :: "(string \<Rightarrow> string) \<Rightarrow> string \<Rightarrow> string" where
  "debug_guess_type super_guess_type path =
     (if endswith path ''.js'' then ''application/javascript''
      else if endswith path ''.css'' then ''text/css''
      else if endswith path ''.json'' then ''application/json''
      else if endswith path ''.svg'' then ''image/svg+xml''
      else super_guess_type path)"

subsection \<open>\<^verbatim>\<open>DebugHTTPRequestHandler.log_message\<close>\<close>

text \<open>
  \<^verbatim>\<open>
  if '200' in message:   color = '\033[92m'
  elif '404' in message: color = '\033[91m'
  elif '304' in message: color = '\033[93m'
  else:                  color = '\033[94m'
  reset_color = '\033[0m'
  print(f"{color}[{timestamp}] {client_ip} - {message}{reset_color}")
  \<close>
  \<open>message\<close> is \<^verbatim>\<open>format % args\<close>, already formatted by the caller.
\<close>

definition ESC :: char where
  "ESC = CHR 0x1B"

definition green :: string where "green = ESC # ''[92m''"
definition red :: string where "red = ESC # ''[91m''"
definition yellow :: string where "yellow = ESC # ''[93m''"
definition blue :: string where "blue = ESC # ''[94m''"
definition reset_color :: string where "reset_color = ESC # ''[0m''"

definition log_color :: "string \<Rightarrow> string" where
  "log_color message =
     (if str_contains ''200'' message then green
      else if str_contains ''404'' message then red
      else if str_contains ''304'' message then yellow
      else blue)"

definition debug_log_line :: "string \<Rightarrow> string \<Rightarrow> string \<Rightarrow> string" where
  "debug_log_line timestamp client_ip message =
     log_color message @ ''['' @ timestamp @ ''] '' @ client_ip @ '' - '' @ message @ reset_color"

text \<open>
  The line that \<^verbatim>\<open>BaseHTTPRequestHandler.log_request(code)\<close> passes to \<^verbatim>\<open>log_message\<close>:
  \<^verbatim>\<open>'"%s" %s %s' % (self.requestline, str(code), '-')\<close>.
\<close>

definition request_log_message :: "string \<Rightarrow> nat \<Rightarrow> string" where
  "request_log_message requestline code =
     CHR 0x22 # requestline @ CHR 0x22 # '' '' @ str_nat code @ '' -''"

subsection \<open>Exceptions, the world, the request handler\<close>

datatype py_error = ValueError | OverflowError | OSError

text \<open>
  What the file system holds at an operating-system path: a regular file (its bytes, its
  modification time in whole seconds, whether \<^verbatim>\<open>open(path, 'rb')\<close> succeeds) or a
  directory (the names \<^verbatim>\<open>os.listdir\<close> returns, \<open>None\<close> when it raises \<^verbatim>\<open>OSError\<close>).
\<close>

datatype node = File (content: string) (mtime: int) (readable: bool)
  | Dir (entries: "string list option")

text \<open>
  The machine and the parts of the standard library that are not written out here.
  \<^item> \<open>nodes\<close>: the file system, by operating-system path;
  \<^item> \<open>resolve\<close>: what \<^verbatim>\<open>SimpleHTTPRequestHandler.translate_path\<close> does once the query
    and the fragment are cut off (percent-decoding, \<^verbatim>\<open>normpath\<close>, joining the words to
    \<^verbatim>\<open>self.directory\<close>, the trailing slash);
  \<^item> \<open>urlparse_other\<close>, \<open>urlsplit_other\<close>: the \<^verbatim>\<open>path\<close> of \<^verbatim>\<open>urllib.parse.urlparse\<close> and
    of \<^verbatim>\<open>urlsplit\<close> on a target that is not in origin form, or the exception raised;
  \<^item> \<open>redirect_url\<close>: \<^verbatim>\<open>urlunsplit\<close> of the target's parts with \<^verbatim>\<open>'/'\<close> appended to the path;
  \<^item> \<open>mimetypes_guess\<close>: \<^verbatim>\<open>SimpleHTTPRequestHandler.guess_type\<close>;
  \<^item> \<open>listing_html\<close>: the encoded page of \<^verbatim>\<open>list_directory\<close>, from \<^verbatim>\<open>self.path\<close>, the
    directory and its names;
  \<^item> \<open>version_string\<close>, \<open>date_now\<close>, \<open>http_date\<close>, \<open>log_time\<close>: \<^verbatim>\<open>self.version_string()\<close>,
    \<^verbatim>\<open>self.date_time_string()\<close>, \<^verbatim>\<open>self.date_time_string(t)\<close> and
    \<^verbatim>\<open>datetime.datetime.now().strftime('%Y-%m-%d %H:%M:%S')\<close>;
  \<^item> \<open>reason_phrase\<close>, \<open>error_html\<close>: \<^verbatim>\<open>self.responses[code][0]\<close> and the encoded body of
    \<^verbatim>\<open>send_error\<close>; \<open>py_repr\<close>: \<^verbatim>\<open>'%r' % s\<close>;
  \<^item> \<open>py_int\<close>: \<^verbatim>\<open>int(s)\<close>, \<open>None\<close> when it raises \<^verbatim>\<open>ValueError\<close>;
  \<^item> \<open>port_free\<close>: whether \<^verbatim>\<open>bind(('', port))\<close> succeeds on a port in 0..65535.
\<close>

record world =
  nodes :: "string \<Rightarrow> node option"
  resolve :: "string \<Rightarrow> string"
  urlparse_other :: "string \<Rightarrow> py_error + string"
  urlsplit_other :: "string \<Rightarrow> py_error + string"
  redirect_url :: "string \<Rightarrow> string"
  mimetypes_guess :: "string \<Rightarrow> string"
  listing_html :: "string \<Rightarrow> string \<Rightarrow> string list \<Rightarrow> string"
  filesystemencoding :: string
  version_string :: string
  date_now :: string
  http_date :: "int \<Rightarrow> string"
  log_time :: string
  reason_phrase :: "nat \<Rightarrow> string"
  error_html :: "nat \<Rightarrow> string \<Rightarrow> string"
  py_repr :: "string \<Rightarrow> string"
  py_int :: "string \<Rightarrow> int option"
  port_free :: "int \<Rightarrow> bool"

text \<open>
  A line of the response head: the status line or a header. The handler holds the parsed
  request (\<^verbatim>\<open>command\<close>, \<^verbatim>\<open>path\<close>, \<^verbatim>\<open>requestline\<close>, \<^verbatim>\<open>client_address[0]\<close>), the
  \<^verbatim>\<open>_headers_buffer\<close>, what has been written to \<^verbatim>\<open>wfile\<close> (head lines, then body bytes)
  and the lines printed. Of the request headers only the two that \<^verbatim>\<open>send_head\<close> reads are
  kept: \<open>if_modified_since\<close> is the time of an \<^verbatim>\<open>If-Modified-Since\<close> header that is present,
  parses and is in UTC (in seconds; \<open>None\<close> otherwise), \<open>if_none_match\<close> is the presence of
  \<^verbatim>\<open>If-None-Match\<close>. The request version is HTTP/1.x: for \<^verbatim>\<open>'HTTP/0.9'\<close> the base class
  writes neither status line nor headers.
\<close>

datatype hline = StatusLine nat string | Header string string

record handler =
  command :: string
  path :: string
  requestline :: string
  client_ip :: string
  if_modified_since :: "int option"
  if_none_match :: bool
  headers_buffer :: "hline list"
  wfile_head :: "hline list"
  wfile_body :: string
  stdout :: "string list"

text \<open>
  The methods a subclass overrides and the base class calls through \<^verbatim>\<open>self\<close>.
\<close>

record methods =
  end_headers :: "handler \<Rightarrow> handler"
  log_message :: "world \<Rightarrow> handler \<Rightarrow> string \<Rightarrow> handler"
  guess_type :: "world \<Rightarrow> string \<Rightarrow> string"

subsection \<open>\<^verbatim>\<open>BaseHTTPRequestHandler\<close>\<close>

definition send_header :: "string \<Rightarrow> string \<Rightarrow> handler \<Rightarrow> handler" where
  "send_header keyword v h = h\<lparr>headers_buffer := headers_buffer h @ [Header keyword v]\<rparr>"

definition send_response_only :: "world \<Rightarrow> nat \<Rightarrow> string option \<Rightarrow> handler \<Rightarrow> handler" where
  "send_response_only w code message h =
     h\<lparr>headers_buffer := headers_buffer h @
          [StatusLine code (case message of None \<Rightarrow> reason_phrase w code | Some m \<Rightarrow> m)]\<rparr>"

definition log_request :: "methods \<Rightarrow> world \<Rightarrow> nat \<Rightarrow> handler \<Rightarrow> handler" where
  "log_request M w code h = log_message M w h (request_log_message (requestline h) code)"

text \<open>
  \<^verbatim>\<open>
  def send_response(self, code, message=None):
      self.log_request(code)
      self.send_response_only(code, message)
      self.send_header('Server', self.version_string())
      self.send_header('Date', self.date_time_string())
  \<close>
\<close>

definition send_response :: "methods \<Rightarrow> world \<Rightarrow> nat \<Rightarrow> string option \<Rightarrow> handler \<Rightarrow> handler" where
  "send_response M w code message h =
     send_header ''Date'' (date_now w)
       (send_header ''Server'' (version_string w)
         (send_response_only w code message (log_request M w code h)))"

text \<open>The inherited \<^verbatim>\<open>end_headers\<close>: the buffer is flushed to \<^verbatim>\<open>wfile\<close>.\<close>

definition base_end_headers :: "handler \<Rightarrow> handler" where
  "base_end_headers h = h\<lparr>wfile_head := wfile_head h @ headers_buffer h, headers_buffer := []\<rparr>"

definition wfile_write :: "string \<Rightarrow> handler \<Rightarrow> handler" where
  "wfile_write bs h = h\<lparr>wfile_body := wfile_body h @ bs\<rparr>"

text \<open>
  \<^verbatim>\<open>send_error(code, message)\<close>: logs \<^verbatim>\<open>"code %d, message %s"\<close>, sends the status line and
  \<^verbatim>\<open>Connection: close\<close>, then, unless the code is below 200 or one of 204, 205, 304, the
  content headers and (unless the command is \<^verbatim>\<open>HEAD\<close>) the HTML body.
\<close>

definition send_error :: "methods \<Rightarrow> world \<Rightarrow> nat \<Rightarrow> string \<Rightarrow> handler \<Rightarrow> handler" where
  "send_error M w code message h =
     (let h1 = log_message M w h (''code '' @ str_nat code @ '', message '' @ message);
          h2 = send_response M w code (Some message) h1;
          h3 = send_header ''Connection'' ''close'' h2
      in if code \<ge> 200 \<and> code \<notin> {204, 205, 304} then
           (let body = error_html w code message;
                h4 = send_header ''Content-Type'' ''text/html;charset=utf-8'' h3;
                h5 = send_header ''Content-Length'' (str_nat (length body)) h4;
                h6 = end_headers M h5
            in if command h \<noteq> ''HEAD'' then wfile_write body h6 else h6)
         else end_headers M h3)"

subsection \<open>\<^verbatim>\<open>urllib.parse\<close> and \<^verbatim>\<open>posixpath\<close>\<close>

text \<open>\<^verbatim>\<open>s.split(c, 1)[0]\<close>: the part of \<open>s\<close> before the first \<open>c\<close>.\<close>

definition before :: "char \<Rightarrow> string \<Rightarrow> string" where
  "before c s = takeWhile (\<lambda>x. x \<noteq> c) s"

text \<open>\<^verbatim>\<open>posixpath.basename(p)\<close> is \<^verbatim>\<open>p[p.rfind('/') + 1:]\<close>; \<open>dirpart\<close> is the rest.\<close>

definition basename :: "string \<Rightarrow> string" where
  "basename p = rev (takeWhile (\<lambda>x. x \<noteq> CHR ''/'') (rev p))"

definition dirpart :: "string \<Rightarrow> string" where
  "dirpart p = rev (dropWhile (\<lambda>x. x \<noteq> CHR ''/'') (rev p))"

text \<open>
  \<^verbatim>\<open>posixpath.join(a, b)\<close> for two components.
\<close>

definition os_path_join :: "string \<Rightarrow> string \<Rightarrow> string" where
  "os_path_join a b =
     (if startswith b ''/'' then b
      else if a = [] \<or> endswith a ''/'' then a @ b
      else a @ ''/'' @ b)"

text \<open>
  A request target in origin form: it starts with one \<^verbatim>\<open>'/'\<close> and holds no tab, line feed
  or carriage return. On such a target \<^verbatim>\<open>urlsplit\<close> strips nothing, finds no scheme
  (\<^verbatim>\<open>url[0]\<close> is not a letter) and no network location (\<^verbatim>\<open>url[:2] != '//'\<close>), and cuts
  the fragment at the first \<^verbatim>\<open>'#'\<close>, then the query at the first \<^verbatim>\<open>'?'\<close>. \<^verbatim>\<open>urlparse\<close>
  then cuts the parameters: \<^verbatim>\<open>_splitparams\<close> keeps the path up to the first \<^verbatim>\<open>';'\<close> of its
  last segment.
\<close>

definition origin_form :: "string \<Rightarrow> bool" where
  "origin_form url =
     (startswith url ''/'' \<and> \<not> startswith url ''//''
      \<and> (\<forall>c \<in> set url. c \<notin> {CHR 0x09, CHR 0x0A, CHR 0x0D}))"

definition urlsplit_path :: "world \<Rightarrow> string \<Rightarrow> py_error + string" where
  "urlsplit_path w url =
     (if origin_form url then Inr (before CHR ''?'' (before CHR ''#'' url))
      else urlsplit_other w url)"

definition splitparams :: "string \<Rightarrow> string" where
  "splitparams url = dirpart url @ before CHR '';'' (basename url)"

definition urlparse_path :: "world \<Rightarrow> string \<Rightarrow> py_error + string" where
  "urlparse_path w url =
     (if origin_form url then
        (let p = before CHR ''?'' (before CHR ''#'' url)
         in Inr (if CHR '';'' \<in> set p then splitparams p else p))
      else urlparse_other w url)"

subsection \<open>\<^verbatim>\<open>SimpleHTTPRequestHandler\<close>\<close>

text \<open>
  \<^verbatim>\<open>
  def translate_path(self, path):
      path = path.split('?',1)[0]
      path = path.split('#',1)[0]
      ...
  \<close>
\<close>

definition translate_path :: "world \<Rightarrow> string \<Rightarrow> string" where
  "translate_path w p = resolve w (before CHR ''#'' (before CHR ''?'' p))"

definition os_path_exists :: "world \<Rightarrow> string \<Rightarrow> bool" where
  "os_path_exists w p = (nodes w p \<noteq> None)"

definition os_path_isdir :: "world \<Rightarrow> string \<Rightarrow> bool" where
  "os_path_isdir w p = (case nodes w p of Some (Dir ns) \<Rightarrow> True | _ \<Rightarrow> False)"

definition os_path_isfile :: "world \<Rightarrow> string \<Rightarrow> bool" where
  "os_path_isfile w p = (case nodes w p of Some (File c m r) \<Rightarrow> True | _ \<Rightarrow> False)"

text \<open>
  \<^verbatim>\<open>list_directory(path)\<close>: 404 when \<^verbatim>\<open>os.listdir\<close> raises, else the listing page with
  status 200. The second component is the file object returned (its bytes), if any.
\<close>

definition list_directory :: "methods \<Rightarrow> world \<Rightarrow> string \<Rightarrow> handler \<Rightarrow> handler \<times> string option" where
  "list_directory M w fpath h =
     (case nodes w fpath of
        Some (Dir (Some names)) \<Rightarrow>
          (let encoded = listing_html w (path h) fpath names;
               h1 = send_response M w 200 None h;
               h2 = send_header ''Content-type'' (''text/html; charset='' @ filesystemencoding w) h1;
               h3 = send_header ''Content-Length'' (str_nat (length encoded)) h2
           in (end_headers M h3, Some encoded))
      | _ \<Rightarrow> (send_error M w 404 ''No permission to list directory'' h, None))"

text \<open>
  The second half of \<^verbatim>\<open>send_head\<close>, from \<^verbatim>\<open>ctype = self.guess_type(path)\<close> on: 404 for a
  path that ends in \<^verbatim>\<open>'/'\<close> or cannot be opened; 304 for a file not modified since the
  time of \<^verbatim>\<open>If-Modified-Since\<close> (when there is no \<^verbatim>\<open>If-None-Match\<close>); else 200 with the
  content headers, returning the open file.
\<close>

definition not_modified :: "handler \<Rightarrow> int \<Rightarrow> bool" where
  "not_modified h last_modif =
     ((case if_modified_since h of None \<Rightarrow> False | Some ims \<Rightarrow> last_modif \<le> ims)
      \<and> \<not> if_none_match h)"

definition send_file_head :: "methods \<Rightarrow> world \<Rightarrow> string \<Rightarrow> handler \<Rightarrow> handler \<times> string option" where
  "send_file_head M w fpath h =
     (let ctype = guess_type M w fpath
      in if endswith fpath ''/'' then (send_error M w 404 ''File not found'' h, None)
         else case nodes w fpath of
           Some (File bytes last_modif True) \<Rightarrow>
             (if not_modified h last_modif
              then (end_headers M (send_response M w 304 None h), None)
              else
                (let h1 = send_response M w 200 None h;
                     h2 = send_header ''Content-type'' ctype h1;
                     h3 = send_header ''Content-Length'' (str_nat (length bytes)) h2;
                     h4 = send_header ''Last-Modified'' (http_date w last_modif) h3
                 in (end_headers M h4, Some bytes)))
         | _ \<Rightarrow> (send_error M w 404 ''File not found'' h, None))"

text \<open>
  \<^verbatim>\<open>send_head\<close>: a directory whose URL path lacks the final \<^verbatim>\<open>'/'\<close> is redirected (301); a
  directory is served by its \<^verbatim>\<open>index.html\<close> or \<^verbatim>\<open>index.htm\<close> if one is a file, else listed;
  anything else is served as a file. \<^verbatim>\<open>urlsplit\<close> may raise.
\<close>

definition send_head :: "methods \<Rightarrow> world \<Rightarrow> handler \<Rightarrow> py_error + handler \<times> string option" where
  "send_head M w h =
     (let fpath = translate_path w (path h)
      in if os_path_isdir w fpath then
           (case urlsplit_path w (path h) of
              Inl e \<Rightarrow> Inl e
            | Inr parts_path \<Rightarrow>
                if \<not> endswith parts_path ''/'' then
                  (let h1 = send_response M w 301 None h;
                       h2 = send_header ''Location'' (redirect_url w (path h)) h1;
                       h3 = send_header ''Content-Length'' ''0'' h2
                   in Inr (end_headers M h3, None))
                else if os_path_isfile w (os_path_join fpath ''index.html'')
                  then Inr (send_file_head M w (os_path_join fpath ''index.html'') h)
                else if os_path_isfile w (os_path_join fpath ''index.htm'')
                  then Inr (send_file_head M w (os_path_join fpath ''index.htm'') h)
                else Inr (list_directory M w fpath h))
         else Inr (send_file_head M w fpath h))"

text \<open>
  \<^verbatim>\<open>
  def do_GET(self):                 def do_HEAD(self):
      f = self.send_head()              f = self.send_head()
      if f: self.copyfile(f, self.wfile)
  \<close>
\<close>

definition super_do_GET :: "methods \<Rightarrow> world \<Rightarrow> handler \<Rightarrow> py_error + handler" where
  "super_do_GET M w h =
     (case send_head M w h of
        Inl e \<Rightarrow> Inl e
      | Inr (h', None) \<Rightarrow> Inr h'
      | Inr (h', Some bytes) \<Rightarrow> Inr (wfile_write bytes h'))"

definition super_do_HEAD :: "methods \<Rightarrow> world \<Rightarrow> handler \<Rightarrow> py_error + handler" where
  "super_do_HEAD M w h =
     (case send_head M w h of Inl e \<Rightarrow> Inl e | Inr (h', f) \<Rightarrow> Inr h')"

subsection \<open>\<^verbatim>\<open>spa-server.py\<close>: \<^verbatim>\<open>SPAHandler\<close>\<close>

text \<open>
  \<^verbatim>\<open>
  def end_headers(self):
      self.send_header('Access-Control-Allow-Origin', '*')
      self.send_header('Access-Control-Allow-Methods', 'GET, POST, OPTIONS')
      self.send_header('Access-Control-Allow-Headers', 'Content-Type')
      super().end_headers()
  \<close>
\<close>

definition spa_end_headers :: "handler \<Rightarrow> handler" where
  "spa_end_headers h =
     base_end_headers
       (send_header ''Access-Control-Allow-Headers'' ''Content-Type''
         (send_header ''Access-Control-Allow-Methods'' ''GET, POST, OPTIONS''
           (send_header ''Access-Control-Allow-Origin'' ''*'' h)))"

text \<open>
  \<^verbatim>\<open>print(f"<globe> {self.address_string()} - {format % args}")\<close>; the globe sign is
  U+1F310, four bytes in UTF-8.
\<close>

definition globe :: string where
  "globe = [CHR 0xF0, CHR 0x9F, CHR 0x8C, CHR 0x90]"

definition spa_log_message :: "world \<Rightarrow> handler \<Rightarrow> string \<Rightarrow> handler" where
  "spa_log_message w h message =
     h\<lparr>stdout := stdout h @ [globe @ '' '' @ client_ip h @ '' - '' @ message]\<rparr>"

definition SPAHandler :: methods where
  "SPAHandler = \<lparr>end_headers = spa_end_headers, log_message = spa_log_message,
                 guess_type = mimetypes_guess\<rparr>"

text \<open>
  \<^verbatim>\<open>
  def do_GET(self):
      parsed_path = urlparse(self.path)
      path = parsed_path.path
      if path == '/':
          self.path = '/index.html'
          return super().do_GET()
      file_path = self.translate_path(path)
      if '.' in os.path.basename(path):
          return super().do_GET()
      if not os.path.exists(file_path):
          self.path = '/index.html'
          return super().do_GET()
      return super().do_GET()
  \<close>
\<close>

definition SPAHandler_do_GET :: "world \<Rightarrow> handler \<Rightarrow> py_error + handler" where
  "SPAHandler_do_GET w h =
     (case urlparse_path w (path h) of
        Inl e \<Rightarrow> Inl e
      | Inr p \<Rightarrow>
          if p = ''/'' then super_do_GET SPAHandler w (h\<lparr>path := ''/index.html''\<rparr>)
          else
            (let file_path = translate_path w p
             in if CHR ''.'' \<in> set (basename p) then super_do_GET SPAHandler w h
                else if \<not> os_path_exists w file_path
                  then super_do_GET SPAHandler w (h\<lparr>path := ''/index.html''\<rparr>)
                else super_do_GET SPAHandler w h))"

subsection \<open>\<^verbatim>\<open>debug_server.py\<close>: \<^verbatim>\<open>DebugHTTPRequestHandler\<close>\<close>

text \<open>
  \<^verbatim>\<open>
  def end_headers(self):
      self.send_header('Access-Control-Allow-Origin', '*')
      self.send_header('Access-Control-Allow-Methods', 'GET, POST, PUT, DELETE, OPTIONS')
      self.send_header('Access-Control-Allow-Headers', 'Content-Type, Authorization')
      self.send_header('Cache-Control', 'no-cache, no-store, must-revalidate')
      super().end_headers()
  \<close>
\<close>

definition debug_end_headers :: "handler \<Rightarrow> handler" where
  "debug_end_headers h =
     base_end_headers
       (send_header ''Cache-Control'' ''no-cache, no-store, must-revalidate''
         (send_header ''Access-Control-Allow-Headers'' ''Content-Type, Authorization''
           (send_header ''Access-Control-Allow-Methods'' ''GET, POST, PUT, DELETE, OPTIONS''
             (send_header ''Access-Control-Allow-Origin'' ''*'' h))))"

definition debug_log_message :: "world \<Rightarrow> handler \<Rightarrow> string \<Rightarrow> handler" where
  "debug_log_message w h message =
     h\<lparr>stdout := stdout h @ [debug_log_line (log_time w) (client_ip h) message]\<rparr>"

definition DebugHTTPRequestHandler :: methods where
  "DebugHTTPRequestHandler =
     \<lparr>end_headers = debug_end_headers, log_message = debug_log_message,
      guess_type = (\<lambda>w. debug_guess_type (mimetypes_guess w))\<rparr>"

text \<open>
  \<^verbatim>\<open>
  def do_OPTIONS(self):
      self.send_response(200)
      self.end_headers()
  \<close>
\<close>

definition do_OPTIONS :: "world \<Rightarrow> handler \<Rightarrow> handler" where
  "do_OPTIONS w h = debug_end_headers (send_response DebugHTTPRequestHandler w 200 None h)"

subsection \<open>Dispatch on the request method\<close>

text \<open>
  \<^verbatim>\<open>handle_one_request\<close> after a successful \<^verbatim>\<open>parse_request\<close>: the method \<^verbatim>\<open>do_<command>\<close>
  if the class has one, else \<^verbatim>\<open>send_error(501, "Unsupported method (%r)" % self.command)\<close>.
  \<^verbatim>\<open>SPAHandler\<close> has \<^verbatim>\<open>do_GET\<close> (its own) and \<^verbatim>\<open>do_HEAD\<close> (inherited);
  \<^verbatim>\<open>DebugHTTPRequestHandler\<close> has \<^verbatim>\<open>do_GET\<close>, \<^verbatim>\<open>do_HEAD\<close> (inherited) and \<^verbatim>\<open>do_OPTIONS\<close>.
\<close>

definition unsupported_method :: "methods \<Rightarrow> world \<Rightarrow> handler \<Rightarrow> handler" where
  "unsupported_method M w h =
     send_error M w 501 (''Unsupported method ('' @ py_repr w (command h) @ '')'') h"

definition spa_handle :: "world \<Rightarrow> handler \<Rightarrow> py_error + handler" where
  "spa_handle w h =
     (if command h = ''GET'' then SPAHandler_do_GET w h
      else if command h = ''HEAD'' then super_do_HEAD SPAHandler w h
      else Inr (unsupported_method SPAHandler w h))"

definition debug_handle :: "world \<Rightarrow> handler \<Rightarrow> py_error + handler" where
  "debug_handle w h =
     (if command h = ''GET'' then super_do_GET DebugHTTPRequestHandler w h
      else if command h = ''HEAD'' then super_do_HEAD DebugHTTPRequestHandler w h
      else if command h = ''OPTIONS'' then Inr (do_OPTIONS w h)
      else Inr (unsupported_method DebugHTTPRequestHandler w h))"

text \<open>What the client reads: the status code of the first status line, the headers, the body.\<close>

fun response_status :: "hline list \<Rightarrow> nat option" where
  "response_status [] = None"
| "response_status (StatusLine code m # ls) = Some code"
| "response_status (Header k v # ls) = response_status ls"

definition status_of :: "handler \<Rightarrow> nat option" where
  "status_of h = response_status (wfile_head h)"

definition has_header :: "handler \<Rightarrow> string \<Rightarrow> string \<Rightarrow> bool" where
  "has_header h k v = (Header k v \<in> set (wfile_head h))"

text \<open>
  The reply of a handled request, for reading it off: the status and the body, \<open>None\<close>
  when an exception ended the handling before a status line was written.
\<close>

definition reply :: "py_error + handler \<Rightarrow> (nat \<times> string) option" where
  "reply r =
     (case r of
        Inl e \<Rightarrow> None
      | Inr h \<Rightarrow> (case status_of h of None \<Rightarrow> None | Some code \<Rightarrow> Some (code, wfile_body h)))"

text \<open>A handler for which nothing has been buffered or written yet.\<close>

definition fresh :: "handler \<Rightarrow> bool" where
  "fresh h = (headers_buffer h = [] \<and> wfile_head h = [] \<and> wfile_body h = [])"

text \<open>
  The target resolves to a readable regular file with these bytes and this modification
  time (a path that ends in \<^verbatim>\<open>'/'\<close> names no file: \<^verbatim>\<open>send_head\<close> answers 404 for it).
\<close>

definition serves_file :: "world \<Rightarrow> string \<Rightarrow> string \<Rightarrow> int \<Rightarrow> bool" where
  "serves_file w target bytes last_modif =
     (nodes w (translate_path w target) = Some (File bytes last_modif True)
      \<and> \<not> endswith (translate_path w target) ''/'')"

text \<open>
  The response alone, without the log: the head lines and the body written to \<^verbatim>\<open>wfile\<close>,
  or the exception.
\<close>

definition response :: "py_error + handler \<Rightarrow> py_error + hline list \<times> string" where
  "response r = (case r of Inl e \<Rightarrow> Inl e | Inr h \<Rightarrow> Inr (wfile_head h, wfile_body h))"

text \<open>
  Two handlers that differ at most in the request line, the client address and what was
  printed; and two results of \<^verbatim>\<open>send_head\<close> that differ at most so.
\<close>

definition alike :: "handler \<Rightarrow> handler \<Rightarrow> bool" where
  "alike g1 g2 =
     (command g1 = command g2 \<and> path g1 = path g2
      \<and> if_modified_since g1 = if_modified_since g2 \<and> if_none_match g1 = if_none_match g2
      \<and> headers_buffer g1 = headers_buffer g2
      \<and> wfile_head g1 = wfile_head g2 \<and> wfile_body g1 = wfile_body g2)"

definition alike2 :: "handler \<times> string option \<Rightarrow> handler \<times> string option \<Rightarrow> bool" where
  "alike2 r1 r2 = (alike (fst r1) (fst r2) \<and> snd r1 = snd r2)"

subsection \<open>The routes of \<^verbatim>\<open>SPAHandler.do_GET\<close>\<close>

text \<open>
  The four \<^verbatim>\<open>return super().do_GET()\<close> of \<^verbatim>\<open>SPAHandler.do_GET\<close>, in the order of the
  source, and the \<^verbatim>\<open>self.path\<close> each of them serves.
\<close>

datatype route = Root | Static | Rewrite | Default

definition spa_route :: "world \<Rightarrow> string \<Rightarrow> py_error + route" where
  "spa_route w target =
     (case urlparse_path w target of
        Inl e \<Rightarrow> Inl e
      | Inr p \<Rightarrow>
          Inr (if p = ''/'' then Root
               else if CHR ''.'' \<in> set (basename p) then Static
               else if \<not> os_path_exists w (translate_path w p) then Rewrite
               else Default))"

fun served_path :: "route \<Rightarrow> string \<Rightarrow> string" where
  "served_path Root target = ''/index.html''"
| "served_path Static target = target"
| "served_path Rewrite target = ''/index.html''"
| "served_path Default target = target"

subsection \<open>\<^verbatim>\<open>debug_server.py\<close>: ports and \<^verbatim>\<open>main\<close>\<close>

text \<open>
  \<^verbatim>\<open>
  def is_port_available(port):
      try:
          with socket.socket(socket.AF_INET, socket.SOCK_STREAM) as s:
              s.bind(('', port))
              return True
      except OSError:
          return False
  \<close>
  \<^verbatim>\<open>bind\<close> raises \<^verbatim>\<open>OverflowError\<close>, which is no \<^verbatim>\<open>OSError\<close>, for a port outside 0..65535.
\<close>

definition is_port_available :: "world \<Rightarrow> int \<Rightarrow> py_error + bool" where
  "is_port_available w port =
     (if 0 \<le> port \<and> port \<le> 65535 then Inr (port_free w port) else Inl OverflowError)"

text \<open>
  \<^verbatim>\<open>
  def find_available_port(start_port=8080, max_attempts=100):
      for port in range(start_port, start_port + max_attempts):
          if is_port_available(port):
              return port
      return None
  \<close>
  \<open>scan_ports w port n\<close> is the loop with \<open>n\<close> ports left, the next one being \<open>port\<close>.
\<close>

fun scan_ports :: "world \<Rightarrow> int \<Rightarrow> nat \<Rightarrow> py_error + int option" where
  "scan_ports w port 0 = Inr None"
| "scan_ports w port (Suc n) =
     (case is_port_available w port of
        Inl e \<Rightarrow> Inl e
      | Inr True \<Rightarrow> Inr (Some port)
      | Inr False \<Rightarrow> scan_ports w (port + 1) n)"

definition find_available_port :: "world \<Rightarrow> int \<Rightarrow> nat \<Rightarrow> py_error + int option" where
  "find_available_port w start_port max_attempts = scan_ports w start_port max_attempts"

text \<open>
  What the programs print before serving, by line: the error of a port that is no number,
  of a missing directory, the warning of an occupied port, the port found, the error of
  no port found; and the traceback the interpreter prints for an exception that nothing
  catches.
\<close>

datatype console = ErrPortNotNumber | ErrDirMissing string | WarnPortBusy int
  | FoundPort int | ErrNoPort | Traceback py_error

text \<open>
  How a run goes on: the server is created on a port in a directory, or \<^verbatim>\<open>sys.exit(code)\<close>
  is called, or an exception reaches the top level; each with the lines printed so far.
\<close>

datatype outcome = Serve int string "console list"
  | Exit nat "console list"
  | Uncaught py_error "console list"

text \<open>
  \<^verbatim>\<open>
  port = 8080
  directory = "."
  if len(sys.argv) > 1:
      try:
          port = int(sys.argv[1])
      except ValueError:
          print(<port must be a number>); sys.exit(1)
  if len(sys.argv) > 2:
      directory = sys.argv[2]
      if not os.path.exists(directory):
          print(<directory does not exist>); sys.exit(1)
  if not is_port_available(port):
      print(<port occupied, searching>)
      available_port = find_available_port(port)
      if available_port:
          port = available_port
          print(<found port>)
      else:
          print(<no port found>); sys.exit(1)
  original_dir = os.getcwd()
  os.chdir(directory)
  try:
      ...
      server = HTTPServer(('', port), DebugHTTPRequestHandler)
  \<close>
  \<^verbatim>\<open>os.chdir\<close> raises \<^verbatim>\<open>OSError\<close> unless the directory is one. The model ends where the
  server is created.
\<close>

definition requested_port :: "world \<Rightarrow> string list \<Rightarrow> int \<Rightarrow> int option" where
  "requested_port w argv default_port =
     (if length argv > 1 then py_int w (argv ! 1) else Some default_port)"

definition requested_directory :: "string list \<Rightarrow> string" where
  "requested_directory argv = (if length argv > 2 then argv ! 2 else ''.'')"

definition start_server :: "world \<Rightarrow> int \<Rightarrow> string \<Rightarrow> console list \<Rightarrow> outcome" where
  "start_server w port directory out =
     (if os_path_isdir w directory then Serve port directory out else Uncaught OSError out)"

definition debug_main :: "world \<Rightarrow> string list \<Rightarrow> outcome" where
  "debug_main w argv =
     (case requested_port w argv 8080 of
        None \<Rightarrow> Exit 1 [ErrPortNotNumber]
      | Some port \<Rightarrow>
          if length argv > 2 \<and> \<not> os_path_exists w (argv ! 2) then Exit 1 [ErrDirMissing (argv ! 2)]
          else
            (case is_port_available w port of
               Inl e \<Rightarrow> Uncaught e []
             | Inr True \<Rightarrow> start_server w port (requested_directory argv) []
             | Inr False \<Rightarrow>
                 (case find_available_port w port 100 of
                    Inl e \<Rightarrow> Uncaught e [WarnPortBusy port]
                  | Inr None \<Rightarrow> Exit 1 [WarnPortBusy port, ErrNoPort]
                  | Inr (Some available_port) \<Rightarrow>
                      if available_port \<noteq> 0
                      then start_server w available_port (requested_directory argv)
                             [WarnPortBusy port, FoundPort available_port]
                      else Exit 1 [WarnPortBusy port, ErrNoPort])))"

subsection \<open>\<^verbatim>\<open>spa-server.py\<close>: the main block\<close>

text \<open>
  \<^verbatim>\<open>
  port = int(sys.argv[1]) if len(sys.argv) > 1 else 8000
  run_server(port)        # socketserver.TCPServer(("", port), handler)
  \<close>
  Nothing catches the \<^verbatim>\<open>ValueError\<close> of \<^verbatim>\<open>int\<close>, nor the \<^verbatim>\<open>OverflowError\<close> or \<^verbatim>\<open>OSError\<close>
  of the server's \<^verbatim>\<open>bind\<close>.
\<close>

definition spa_main :: "world \<Rightarrow> string list \<Rightarrow> outcome" where
  "spa_main w argv =
     (case requested_port w argv 8000 of
        None \<Rightarrow> Uncaught ValueError []
      | Some port \<Rightarrow>
          (case is_port_available w port of
             Inl e \<Rightarrow> Uncaught e []
           | Inr True \<Rightarrow> Serve port ''.'' []
           | Inr False \<Rightarrow> Uncaught OSError []))"

text \<open>
  The end of a run that does not serve: the lines printed and the exit status. For an
  exception that reaches the top level the interpreter prints the traceback and exits
  with status 1.
\<close>

fun process_end :: "outcome \<Rightarrow> (console list \<times> nat) option" where
  "process_end (Serve port directory out) = None"
| "process_end (Exit code out) = Some (out, code)"
| "process_end (Uncaught e out) = Some (out @ [Traceback e], 1)"

subsection \<open>A small world to run the definitions on\<close>

definition example_nodes :: "string \<Rightarrow> node option" where
  "example_nodes p =
     (if p = ''/srv'' \<or> p = ''/srv/'' \<or> p = ''.'' then Some (Dir (Some [''index.html'']))
      else if p = ''/srv/index.html'' then Some (File ''<html>app</html>'' 1000 True)
      else None)"

definition example_int :: "string \<Rightarrow> int option" where
  "example_int s =
     (if s \<noteq> [] \<and> (\<forall>c \<in> set s. c \<in> set ''0123456789'')
      then Some (foldl (\<lambda>a c. 10 * a + int (length (takeWhile (\<lambda>d. d \<noteq> c) ''0123456789''))) 0 s)
      else None)"

definition example_world :: world where
  "example_world =
     \<lparr>nodes = example_nodes,
      resolve = (\<lambda>p. ''/srv'' @ p),
      urlparse_other = (\<lambda>u. Inl ValueError),
      urlsplit_other = (\<lambda>u. Inl ValueError),
      redirect_url = (\<lambda>u. u @ ''/''),
      mimetypes_guess = (\<lambda>p. ''application/octet-stream''),
      listing_html = (\<lambda>u p names. concat names),
      filesystemencoding = ''utf-8'',
      version_string = ''SimpleHTTP/0.6 Python/3.11.10'',
      date_now = ''Tue, 03 Nov 2026 12:00:00 GMT'',
      http_date = (\<lambda>t. ''Thu, 01 Jan 1970 00:16:40 GMT''),
      log_time = ''2026-11-03 12:00:00'',
      reason_phrase = (\<lambda>code. if code = 200 then ''OK'' else ''-''),
      error_html = (\<lambda>code message. message),
      py_repr = (\<lambda>s. s),
      py_int = example_int,
      port_free = (\<lambda>port. port \<noteq> 8080 \<and> port \<noteq> 8081)\<rparr>"

definition request :: "string \<Rightarrow> string \<Rightarrow> handler" where
  "request method target =
     \<lparr>command = method, path = target,
      requestline = method @ '' '' @ target @ '' HTTP/1.1'',
      client_ip = ''127.0.0.1'',
      if_modified_since = None, if_none_match = False,
      headers_buffer = [], wfile_head = [], wfile_body = [], stdout = []\<rparr>"

section \<open>Properties\<close>

subsection \<open>The header buffer and the response head\<close>

lemma wfile_head_send_header [simp]: "wfile_head (send_header k v h) = wfile_head h"
  by (simp add: send_header_def)

lemma headers_buffer_send_header [simp]:
  "headers_buffer (send_header k v h) = headers_buffer h @ [Header k v]"
  by (simp add: send_header_def)

lemma wfile_body_send_header [simp]: "wfile_body (send_header k v h) = wfile_body h"
  by (simp add: send_header_def)

lemma command_send_header [simp]: "command (send_header k v h) = command h"
  by (simp add: send_header_def)

lemma wfile_head_base_end_headers [simp]:
  "wfile_head (base_end_headers h) = wfile_head h @ headers_buffer h"
  by (simp add: base_end_headers_def)

lemma wfile_body_base_end_headers [simp]: "wfile_body (base_end_headers h) = wfile_body h"
  by (simp add: base_end_headers_def)

lemma wfile_head_wfile_write [simp]: "wfile_head (wfile_write bs h) = wfile_head h"
  by (simp add: wfile_write_def)

lemma wfile_body_wfile_write [simp]: "wfile_body (wfile_write bs h) = wfile_body h @ bs"
  by (simp add: wfile_write_def)

lemma has_header_wfile_write [simp]: "has_header (wfile_write bs h) k v = has_header h k v"
  by (simp add: has_header_def)









lemma SPAHandler_end_headers [simp]: "end_headers SPAHandler = spa_end_headers"
  by (simp add: SPAHandler_def)

lemma Debug_end_headers [simp]: "end_headers DebugHTTPRequestHandler = debug_end_headers"
  by (simp add: DebugHTTPRequestHandler_def)


lemma debug_log_message_fields [simp]:
  "wfile_head (debug_log_message w h m) = wfile_head h"
  "headers_buffer (debug_log_message w h m) = headers_buffer h"
  "wfile_body (debug_log_message w h m) = wfile_body h"
  "command (debug_log_message w h m) = command h"
  by (simp_all add: debug_log_message_def)

lemma spa_log_message_fields [simp]:
  "wfile_head (spa_log_message w h m) = wfile_head h"
  "headers_buffer (spa_log_message w h m) = headers_buffer h"
  "wfile_body (spa_log_message w h m) = wfile_body h"
  "command (spa_log_message w h m) = command h"
  by (simp_all add: spa_log_message_def)

lemma SPAHandler_log_message [simp]: "log_message SPAHandler = spa_log_message"
  by (simp add: SPAHandler_def)

lemma Debug_log_message [simp]: "log_message DebugHTTPRequestHandler = debug_log_message"
  by (simp add: DebugHTTPRequestHandler_def)




subsection \<open>Serving a file, and a missing one\<close>




lemma before_no: "c \<notin> set s \<Longrightarrow> before c s = s"
  by (induction s) (auto simp: before_def)

lemma before_append: "c \<notin> set p \<Longrightarrow> before c (p @ c # q) = p"
  by (induction p) (auto simp: before_def)

lemma before_append_other: "c \<notin> set p \<Longrightarrow> before c (p @ s) = p @ before c s"
  by (induction p) (auto simp: before_def)

lemma origin_form_prefix:
  assumes "origin_form (p @ c # q)" and "p \<noteq> []"
  shows "origin_form p"
proof -
  obtain a r where p: "p = a # r" using assms(2) by (cases p) auto
  show ?thesis
    using assms(1) unfolding p origin_form_def startswith_def
    by (cases r) auto
qed

lemma urlparse_path_query:
  assumes "origin_form (p @ CHR ''?'' # q)" and "p \<noteq> []"
    and "CHR ''?'' \<notin> set p" and "CHR ''#'' \<notin> set p"
  shows "urlparse_path w (p @ CHR ''?'' # q) = urlparse_path w p"
proof -
  have "before CHR ''#'' (p @ CHR ''?'' # q) = p @ before CHR ''#'' (CHR ''?'' # q)"
    using assms(4) by (rule before_append_other)
  also have "\<dots> = p @ CHR ''?'' # before CHR ''#'' q"
    by (simp add: before_def)
  finally have "before CHR ''?'' (before CHR ''#'' (p @ CHR ''?'' # q)) = p"
    using assms(3) by (simp add: before_append)
  moreover have "before CHR ''?'' (before CHR ''#'' p) = p"
    using assms(3,4) by (simp add: before_no)
  ultimately show ?thesis
    using assms(1) origin_form_prefix [OF assms(1,2)]
    by (simp add: urlparse_path_def)
qed

text \<open>
  For a target in origin form whose path holds no \<^verbatim>\<open>';'\<close>, the path that \<^verbatim>\<open>do_GET\<close> of the SPA
  handler resolves (\<^verbatim>\<open>translate_path\<close> of the parsed path) is the one the inherited
  \<^verbatim>\<open>send_head\<close> resolves (\<^verbatim>\<open>translate_path\<close> of \<^verbatim>\<open>self.path\<close>).
\<close>

lemma translate_path_of_parsed:
  assumes "origin_form t" and "CHR '';'' \<notin> set (before CHR ''?'' (before CHR ''#'' t))"
  shows "urlparse_path w t = Inr (before CHR ''?'' (before CHR ''#'' t))"
    and "translate_path w (before CHR ''?'' (before CHR ''#'' t)) = translate_path w t"
proof -
  show "urlparse_path w t = Inr (before CHR ''?'' (before CHR ''#'' t))"
    using assms by (simp add: urlparse_path_def Let_def)
  have c: "before CHR ''?'' (before CHR ''#'' t) = before CHR ''#'' (before CHR ''?'' t)"
    by (induction t) (auto simp: before_def)
  have "before CHR ''#'' (before CHR ''?'' (before CHR ''#'' (before CHR ''?'' t)))
        = before CHR ''#'' (before CHR ''?'' t)"
    by (induction t) (auto simp: before_def)
  then show "translate_path w (before CHR ''?'' (before CHR ''#'' t)) = translate_path w t"
    by (simp add: translate_path_def c)
qed

subsection \<open>The request line reaches the log only\<close>

lemma alike_send_header: "alike g1 g2 \<Longrightarrow> alike (send_header k v g1) (send_header k v g2)"
  by (simp add: alike_def send_header_def)

lemma alike_spa_send_response:
  "alike g1 g2 \<Longrightarrow> alike (send_response SPAHandler w c m g1) (send_response SPAHandler w c m g2)"
  by (simp add: alike_def send_response_def send_response_only_def log_request_def
      send_header_def spa_log_message_def SPAHandler_def)

lemma alike_spa_end_headers:
  "alike g1 g2 \<Longrightarrow> alike (spa_end_headers g1) (spa_end_headers g2)"
  by (simp add: alike_def spa_end_headers_def base_end_headers_def send_header_def)

lemma alike_spa_log_message:
  "alike g1 g2 \<Longrightarrow> alike (spa_log_message w g1 m1) (spa_log_message w g2 m2)"
  by (simp add: alike_def spa_log_message_def)

lemma alike_wfile_write: "alike g1 g2 \<Longrightarrow> alike (wfile_write bs g1) (wfile_write bs g2)"
  by (simp add: alike_def wfile_write_def)

lemma alike_if:
  "alike a1 a2 \<Longrightarrow> alike b1 b2 \<Longrightarrow> alike (if P then a1 else b1) (if P then a2 else b2)"
  by simp

lemmas alike_spa =
  alike_wfile_write alike_spa_end_headers alike_send_header alike_spa_send_response
  alike_spa_log_message alike_if

lemma alike_spa_send_error:
  assumes "alike g1 g2"
  shows "alike (send_error SPAHandler w c m g1) (send_error SPAHandler w c m g2)"
proof -
  have c: "command g1 = command g2" using assms by (simp add: alike_def)
  show ?thesis
    unfolding send_error_def Let_def c SPAHandler_end_headers SPAHandler_log_message
    by (intro alike_spa assms)
qed

lemma alike2_spa_list_directory:
  assumes "alike g1 g2"
  shows "alike2 (list_directory SPAHandler w p g1) (list_directory SPAHandler w p g2)"
proof -
  have c: "path g1 = path g2" using assms by (simp add: alike_def)
  show ?thesis
    by (simp add: alike2_def list_directory_def Let_def c alike_spa alike_spa_send_error assms
        split: option.splits node.splits)
qed

lemma alike2_spa_send_file_head:
  assumes "alike g1 g2"
  shows "alike2 (send_file_head SPAHandler w p g1) (send_file_head SPAHandler w p g2)"
proof -
  have c: "not_modified g1 = not_modified g2"
    using assms by (simp add: alike_def not_modified_def fun_eq_iff)
  show ?thesis
    by (simp add: alike2_def send_file_head_def Let_def c alike_spa alike_spa_send_error assms
        split: option.splits node.splits bool.splits)
qed

lemma alike2_spa_send_head:
  assumes "alike g1 g2"
  shows "rel_sum (=) alike2 (send_head SPAHandler w g1) (send_head SPAHandler w g2)"
proof -
  have c: "path g1 = path g2" using assms by (simp add: alike_def)
  have r: "alike2 (spa_end_headers a1, None) (spa_end_headers a2, None)" if "alike a1 a2" for a1 a2
    using that by (simp add: alike2_def alike_spa)
  show ?thesis
    by (simp add: send_head_def Let_def c r alike_spa assms
        alike2_spa_send_file_head alike2_spa_list_directory split: sum.splits)
qed

lemma response_spa_super_do_GET:
  assumes "alike g1 g2"
  shows "response (super_do_GET SPAHandler w g1) = response (super_do_GET SPAHandler w g2)"
proof (cases "send_head SPAHandler w g1")
  case (Inl e)
  then show ?thesis
    using alike2_spa_send_head [OF assms, of w]
    by (cases "send_head SPAHandler w g2") (simp_all add: response_def super_do_GET_def)
next
  case (Inr r1)
  then obtain r2 where r2: "send_head SPAHandler w g2 = Inr r2" and a: "alike2 r1 r2"
    using alike2_spa_send_head [OF assms, of w]
    by (cases "send_head SPAHandler w g2") simp_all
  obtain h1 f1 h2 f2 where r: "r1 = (h1, f1)" "r2 = (h2, f2)"
    by (cases r1, cases r2) auto
  from a r have "alike h1 h2" "f1 = f2" by (simp_all add: alike2_def)
  then show ?thesis
    by (cases f2) (simp_all add: response_def super_do_GET_def Inr r2 r alike_def wfile_write_def)
qed

subsection \<open>Scanning for a free port\<close>

lemma is_port_available_cases:
  "is_port_available w q = Inr True \<or> is_port_available w q = Inr False
   \<or> is_port_available w q = Inl OverflowError"
  by (simp add: is_port_available_def)

lemma open_in_range: "is_port_available w q = Inr True \<Longrightarrow> 0 \<le> q \<and> q \<le> 65535"
  by (simp add: is_port_available_def split: if_splits)

lemma closed_in_range:
  "0 \<le> r \<Longrightarrow> r \<le> 65535 \<Longrightarrow> is_port_available w r \<noteq> Inr True \<Longrightarrow> is_port_available w r = Inr False"
  by (simp add: is_port_available_def)

lemma scan_ports_first:
  assumes "0 \<le> p" and "p \<le> q" and "q < p + int n"
    and "is_port_available w q = Inr True"
    and "\<And>r. p \<le> r \<Longrightarrow> r < q \<Longrightarrow> is_port_available w r \<noteq> Inr True"
  shows "scan_ports w p n = Inr (Some q)"
  using assms
proof (induction n arbitrary: p)
  case 0
  then show ?case by simp
next
  case (Suc n)
  show ?case
  proof (cases "p = q")
    case True
    then show ?thesis using Suc.prems(4) by simp
  next
    case False
    then have lt: "p < q" using Suc.prems(2) by simp
    have "q \<le> 65535" using open_in_range [OF Suc.prems(4)] by simp
    then have "is_port_available w p = Inr False"
      using closed_in_range [of p w] Suc.prems(1) Suc.prems(5) [of p] lt by simp
    moreover have "scan_ports w (p + 1) n = Inr (Some q)"
    proof (rule Suc.IH)
      show "0 \<le> p + 1" using Suc.prems(1) by simp
      show "p + 1 \<le> q" using lt by simp
      show "q < p + 1 + int n" using Suc.prems(3) by simp
      show "is_port_available w q = Inr True" by (rule Suc.prems(4))
      show "\<And>r. p + 1 \<le> r \<Longrightarrow> r < q \<Longrightarrow> is_port_available w r \<noteq> Inr True"
        using Suc.prems(5) by simp
    qed
    ultimately show ?thesis by simp
  qed
qed

lemma scan_ports_none:
  assumes "\<And>r. p \<le> r \<Longrightarrow> r < p + int n \<Longrightarrow> is_port_available w r \<noteq> Inr True"
  shows "scan_ports w p n = Inr None \<or> scan_ports w p n = Inl OverflowError"
  using assms
proof (induction n arbitrary: p)
  case 0
  then show ?case by simp
next
  case (Suc n)
  have here: "is_port_available w p \<noteq> Inr True"
    using Suc.prems [of p] by simp
  have rest: "scan_ports w (p + 1) n = Inr None \<or> scan_ports w (p + 1) n = Inl OverflowError"
    by (rule Suc.IH) (use Suc.prems in simp)
  from is_port_available_cases [of w p] here rest show ?case
    by auto
qed

subsection \<open>Running the definitions\<close>

lemmas handler_eval =
  request_def example_world_def example_nodes_def
  spa_handle_def debug_handle_def SPAHandler_do_GET_def super_do_GET_def super_do_HEAD_def
  send_head_def send_file_head_def list_directory_def send_error_def send_response_def
  send_response_only_def log_request_def send_header_def base_end_headers_def wfile_write_def
  spa_end_headers_def debug_end_headers_def spa_log_message_def debug_log_message_def
  SPAHandler_def DebugHTTPRequestHandler_def do_OPTIONS_def unsupported_method_def
  urlparse_path_def urlsplit_path_def origin_form_def splitparams_def translate_path_def
  before_def basename_def dirpart_def os_path_join_def os_path_exists_def os_path_isdir_def
  os_path_isfile_def not_modified_def startswith_def endswith_def
  reply_def status_of_def has_header_def fresh_def serves_file_def Let_def
  suffix_to_prefix

subsection \<open>Small facts about paths and suffixes\<close>

lemma urlparse_root: "urlparse_path w ''/'' = Inr ''/''"
  by (simp add: urlparse_path_def origin_form_def startswith_def before_def)

lemma urlparse_index: "urlparse_path w ''/index.html'' = Inr ''/index.html''"
  by (simp add: urlparse_path_def origin_form_def startswith_def before_def)

lemma basename_index: "basename ''/index.html'' = ''index.html''"
  by (simp add: basename_def)

lemma endswith_both: "endswith p a \<Longrightarrow> endswith p b \<Longrightarrow> suffix a b \<or> suffix b a"
  unfolding endswith_def by (rule suffix_same_cases)

subsection \<open>The claims\<close>






text \<open>
  C3. Whatever the served directory holds, the SPA server answers \<^verbatim>\<open>GET /\<close> and
  \<^verbatim>\<open>GET /index.html\<close> alike: two requests that differ in the target and the request line
  only get the same status line, headers and body bytes (or end in the same exception).
\<close>

theorem spa_root_same_as_index:
  "response (SPAHandler_do_GET w (h\<lparr>path := ''/'', requestline := l1\<rparr>)) =
   response (SPAHandler_do_GET w (h\<lparr>path := ''/index.html'', requestline := l2\<rparr>))"
proof -
  have "SPAHandler_do_GET w (h\<lparr>path := ''/'', requestline := l1\<rparr>) =
        super_do_GET SPAHandler w (h\<lparr>path := ''/'', requestline := l1, path := ''/index.html''\<rparr>)"
    by (simp add: SPAHandler_do_GET_def urlparse_root)
  moreover have "SPAHandler_do_GET w (h\<lparr>path := ''/index.html'', requestline := l2\<rparr>) =
        super_do_GET SPAHandler w (h\<lparr>path := ''/index.html'', requestline := l2\<rparr>)"
    by (simp add: SPAHandler_do_GET_def urlparse_index basename_index)
  moreover have "alike (h\<lparr>path := ''/'', requestline := l1, path := ''/index.html''\<rparr>)
                       (h\<lparr>path := ''/index.html'', requestline := l2\<rparr>)"
    by (simp add: alike_def)
  ultimately show ?thesis
    by (simp add: response_spa_super_do_GET)
qed



text \<open>
  C5. When the requested port is occupied, the debug server tries the 100 ports from it
  on and serves on the first free one; it ends with exit status 1 (after the message that
  no port was found, or with the \<^verbatim>\<open>OverflowError\<close> of a port above 65535) exactly when
  none of these ports is free.
\<close>

theorem port_scan:
  assumes "requested_port w argv 8080 = Some p"
    and "is_port_available w p = Inr False"
    and "os_path_isdir w (requested_directory argv)"
  shows "(p \<le> q \<and> q < p + 100 \<and> is_port_available w q = Inr True
          \<and> (\<forall>r. p \<le> r \<and> r < q \<longrightarrow> is_port_available w r \<noteq> Inr True)
          \<longrightarrow> debug_main w argv =
                Serve q (requested_directory argv) [WarnPortBusy p, FoundPort q])
    \<and> ((\<forall>r. p \<le> r \<and> r < p + 100 \<longrightarrow> is_port_available w r \<noteq> Inr True)
          \<longrightarrow> process_end (debug_main w argv) = Some ([WarnPortBusy p, ErrNoPort], 1)
              \<or> process_end (debug_main w argv) = Some ([WarnPortBusy p, Traceback OverflowError], 1))
    \<and> (process_end (debug_main w argv) \<noteq> None
          \<longleftrightarrow> (\<forall>r. p \<le> r \<and> r < p + 100 \<longrightarrow> is_port_available w r \<noteq> Inr True))"
proof -
  have p0: "0 \<le> p"
    using assms(2) by (simp add: is_port_available_def split: if_splits)
  have dir: "2 < length argv \<Longrightarrow> os_path_exists w (argv ! 2)"
    using assms(3)
    by (auto simp: requested_directory_def os_path_isdir_def os_path_exists_def
        split: option.splits)
  have srv: "\<And>a out. start_server w a (requested_directory argv) out =
               Serve a (requested_directory argv) out"
    using assms(3) by (simp add: start_server_def)
  have main: "debug_main w argv =
    (case scan_ports w p 100 of
       Inl e \<Rightarrow> Uncaught e [WarnPortBusy p]
     | Inr None \<Rightarrow> Exit 1 [WarnPortBusy p, ErrNoPort]
     | Inr (Some a) \<Rightarrow>
         if a \<noteq> 0 then Serve a (requested_directory argv) [WarnPortBusy p, FoundPort a]
         else Exit 1 [WarnPortBusy p, ErrNoPort])"
    using assms(1,2) dir
    by (auto simp: debug_main_def find_available_port_def srv split: sum.splits option.splits)
  have found: "debug_main w argv = Serve a (requested_directory argv) [WarnPortBusy p, FoundPort a]"
    if "p \<le> a" "a < p + 100" "is_port_available w a = Inr True"
      "\<And>r. p \<le> r \<Longrightarrow> r < a \<Longrightarrow> is_port_available w r \<noteq> Inr True" for a
  proof -
    have "scan_ports w p 100 = Inr (Some a)"
      by (rule scan_ports_first [OF p0]) (use that in simp_all)
    moreover have "a \<noteq> 0" using that(1,3) assms(2) p0 by (cases "a = p") auto
    ultimately show ?thesis by (simp add: main)
  qed
  have none: "process_end (debug_main w argv) = Some ([WarnPortBusy p, ErrNoPort], 1)
              \<or> process_end (debug_main w argv) = Some ([WarnPortBusy p, Traceback OverflowError], 1)"
    if "\<forall>r. p \<le> r \<and> r < p + 100 \<longrightarrow> is_port_available w r \<noteq> Inr True"
    using scan_ports_none [of p 100 w] that by (auto simp: main)
  have some: "process_end (debug_main w argv) = None"
    if ex: "\<exists>r. p \<le> r \<and> r < p + 100 \<and> is_port_available w r = Inr True"
  proof -
    define S where "S = {r. p \<le> r \<and> r < p + 100 \<and> is_port_available w r = Inr True}"
    have fin: "finite S"
      by (rule finite_subset [of _ "{p..<p + 100}"]) (auto simp: S_def)
    have ne: "S \<noteq> {}" using ex by (auto simp: S_def)
    have m: "Min S \<in> S" using fin ne by (rule Min_in)
    have least: "\<And>r. p \<le> r \<Longrightarrow> r < Min S \<Longrightarrow> is_port_available w r \<noteq> Inr True"
    proof
      fix r assume r: "p \<le> r" "r < Min S" "is_port_available w r = Inr True"
      have "r < p + 100" using r(2) m by (simp add: S_def)
      then have "r \<in> S" using r by (simp add: S_def)
      then have "Min S \<le> r" using fin by simp
      then show False using r(2) by simp
    qed
    have "debug_main w argv =
            Serve (Min S) (requested_directory argv) [WarnPortBusy p, FoundPort (Min S)]"
      by (rule found) (use m least in \<open>simp_all add: S_def\<close>)
    then show ?thesis by simp
  qed
  show ?thesis
    using found none some by (intro conjI impI iffI) (blast, blast, force, blast)
qed

theorem port_scan_witness:
  "debug_main example_world [''debug_server.py'', ''8080''] =
     Serve 8082 ''.'' [WarnPortBusy 8080, FoundPort 8082]
   \<and> process_end (debug_main example_world [''debug_server.py'', ''8080'']) = None"
proof -
  have a: "requested_port example_world [''debug_server.py'', ''8080''] 8080 = Some 8080"
    by (simp add: requested_port_def example_world_def example_int_def)
  have b: "is_port_available example_world 8080 = Inr False"
    by (simp add: is_port_available_def example_world_def)
  have c: "os_path_isdir example_world (requested_directory [''debug_server.py'', ''8080''])"
    by (simp add: os_path_isdir_def requested_directory_def example_world_def example_nodes_def)
  have d: "is_port_available example_world 8082 = Inr True"
    by (simp add: is_port_available_def example_world_def)
  have e: "\<forall>r. 8080 \<le> r \<and> r < 8082 \<longrightarrow> is_port_available example_world r \<noteq> Inr True"
  proof (intro allI impI)
    fix r :: int assume "8080 \<le> r \<and> r < 8082"
    then have "r = 8080 \<or> r = 8081" by arith
    then show "is_port_available example_world r \<noteq> Inr True"
      by (auto simp: is_port_available_def example_world_def)
  qed
  from port_scan [OF a b c, of 8082] d e
  have "debug_main example_world [''debug_server.py'', ''8080''] =
     Serve 8082 (requested_directory [''debug_server.py'', ''8080'']) [WarnPortBusy 8080, FoundPort 8082]"
    by simp
  then show ?thesis by (simp add: requested_directory_def)
qed

text \<open>
  C6. With a first argument that \<^verbatim>\<open>int\<close> rejects, the debug server prints its error line
  and exits with status 1; the SPA server ends with the traceback of the \<^verbatim>\<open>ValueError\<close>
  and status 1. Neither serves.
\<close>

theorem invalid_port:
  "length argv > 1 \<Longrightarrow> py_int w (argv ! 1) = None \<Longrightarrow>
     process_end (debug_main w argv) = Some ([ErrPortNotNumber], 1)
     \<and> process_end (spa_main w argv) = Some ([Traceback ValueError], 1)"
  by (simp add: debug_main_def spa_main_def requested_port_def)

theorem invalid_port_witness:
  "process_end (debug_main example_world [''debug_server.py'', ''abc''])
     = Some ([ErrPortNotNumber], 1)
   \<and> process_end (spa_main example_world [''spa-server.py'', ''abc''])
     = Some ([Traceback ValueError], 1)"
  using invalid_port [of "[''debug_server.py'', ''abc'']" example_world]
    invalid_port [of "[''spa-server.py'', ''abc'']" example_world]
  by (simp add: example_world_def example_int_def)

text \<open>
  C7. The colour of a log line is chosen by looking for \<^verbatim>\<open>'200'\<close>, \<^verbatim>\<open>'404'\<close>, \<^verbatim>\<open>'304'\<close>
  anywhere in the message, and the message of \<^verbatim>\<open>log_request\<close> starts with the request
  line. So the colour is not a function of the status: \<^verbatim>\<open>GET /img200.png\<close> for a missing
  file is answered 404, and of its two log lines the first (\<^verbatim>\<open>code 404, message ...\<close>) is red
  and the second (the request line with the status) is green.
\<close>

theorem debug_log_404_green:
  "reply (debug_handle example_world (request ''GET'' ''/img200.png''))
     = Some (404, ''File not found'')
   \<and> log_color (request_log_message (requestline (request ''GET'' ''/img200.png'')) 404) = green
   \<and> map (take 5) (stdout (projr (debug_handle example_world (request ''GET'' ''/img200.png''))))
     = [red, green]
   \<and> green \<noteq> red"
  by (simp add: handler_eval log_color_def request_log_message_def debug_log_line_def
      green_def red_def ESC_def str_nat.simps digit_char_def)



text \<open>
  C9. \<^verbatim>\<open>SPAHandler.do_GET\<close> chooses its route from the parsed path alone: it is the
  inherited \<^verbatim>\<open>do_GET\<close> on the path of the route; two targets with the same parsed path
  take the same route; a target in origin form takes the route of its path without the
  query string; and on the two routes that rewrite, the path served is \<^verbatim>\<open>/index.html\<close>,
  which holds no query.
\<close>

theorem spa_routing_ignores_query:
  "SPAHandler_do_GET w h =
     (case spa_route w (path h) of
        Inl e \<Rightarrow> Inl e
      | Inr r \<Rightarrow> super_do_GET SPAHandler w (h\<lparr>path := served_path r (path h)\<rparr>))
   \<and> (urlparse_path w t1 = urlparse_path w t2 \<longrightarrow> spa_route w t1 = spa_route w t2)
   \<and> (origin_form (p @ CHR ''?'' # q) \<and> p \<noteq> [] \<and> CHR ''?'' \<notin> set p \<and> CHR ''#'' \<notin> set p
        \<longrightarrow> spa_route w (p @ CHR ''?'' # q) = spa_route w p)
   \<and> (spa_route w t = Inr r \<and> (r = Root \<or> r = Rewrite)
        \<longrightarrow> served_path r t = ''/index.html'' \<and> CHR ''?'' \<notin> set (served_path r t))"
proof -
  have 1: "SPAHandler_do_GET w h =
     (case spa_route w (path h) of
        Inl e \<Rightarrow> Inl e
      | Inr r \<Rightarrow> super_do_GET SPAHandler w (h\<lparr>path := served_path r (path h)\<rparr>))"
    by (simp add: SPAHandler_do_GET_def spa_route_def Let_def split: sum.splits)
  have 2: "urlparse_path w t1 = urlparse_path w t2 \<longrightarrow> spa_route w t1 = spa_route w t2"
    by (simp add: spa_route_def)
  have 3: "origin_form (p @ CHR ''?'' # q) \<and> p \<noteq> [] \<and> CHR ''?'' \<notin> set p \<and> CHR ''#'' \<notin> set p
        \<longrightarrow> spa_route w (p @ CHR ''?'' # q) = spa_route w p"
    using urlparse_path_query [of p q w] by (auto simp: spa_route_def)
  have 4: "spa_route w t = Inr r \<and> (r = Root \<or> r = Rewrite)
        \<longrightarrow> served_path r t = ''/index.html'' \<and> CHR ''?'' \<notin> set (served_path r t)"
    by auto
  from 1 2 3 4 show ?thesis by blast
qed

theorem spa_routing_witness:
  "spa_route example_world ''/app/settings?tab=1'' = spa_route example_world ''/app/settings?tab=2''
   \<and> spa_route example_world ''/app/settings?tab=1'' = spa_route example_world ''/app/settings''
   \<and> served_path Rewrite ''/app/settings?tab=1'' = ''/index.html''"
proof -
  have u: "urlparse_path example_world ''/app/settings?tab=1'' = urlparse_path example_world ''/app/settings?tab=2''"
    by (simp add: handler_eval)
  have o: "origin_form (''/app/settings'' @ CHR ''?'' # ''tab=1'') \<and> ''/app/settings'' \<noteq> []
           \<and> CHR ''?'' \<notin> set ''/app/settings'' \<and> CHR ''#'' \<notin> set ''/app/settings''"
    by (simp add: handler_eval)
  have r: "spa_route example_world ''/app/settings?tab=1'' = Inr Rewrite \<and> (Rewrite = Root \<or> Rewrite = Rewrite)"
    by (simp add: spa_route_def handler_eval)
  note t = spa_routing_ignores_query
    [of example_world "request ''GET'' ''/''" "''/app/settings?tab=1''" "''/app/settings?tab=2''"
        "''/app/settings''" "''tab=1''" "''/app/settings?tab=1''" Rewrite]
  have 1: "spa_route example_world ''/app/settings?tab=1'' = spa_route example_world ''/app/settings?tab=2''"
    using t u by blast
  have "spa_route example_world (''/app/settings'' @ CHR ''?'' # ''tab=1'') = spa_route example_world ''/app/settings''"
    using t o by blast
  then have 2: "spa_route example_world ''/app/settings?tab=1'' = spa_route example_world ''/app/settings''"
    by simp
  have 3: "served_path Rewrite ''/app/settings?tab=1'' = ''/index.html''"
    using t r by blast
  from 1 2 3 show ?thesis by blast
qed

text \<open>
  C10. The four overrides of \<^verbatim>\<open>guess_type\<close> match the end of the path exactly: a path ending
  in \<^verbatim>\<open>.js\<close>, \<^verbatim>\<open>.css\<close>, \<^verbatim>\<open>.json\<close> or \<^verbatim>\<open>.svg\<close> gets the type written in the source, and a
  path ending in \<^verbatim>\<open>.JS\<close>, \<^verbatim>\<open>.CSS\<close>, \<^verbatim>\<open>.JSON\<close> or \<^verbatim>\<open>.SVG\<close> gets what the inherited
  \<^verbatim>\<open>guess_type\<close> says.
\<close>

theorem debug_guess_type_overrides:
  "(endswith p ''.js'' \<longrightarrow> debug_guess_type g p = ''application/javascript'')
   \<and> (endswith p ''.css'' \<longrightarrow> debug_guess_type g p = ''text/css'')
   \<and> (endswith p ''.json'' \<longrightarrow> debug_guess_type g p = ''application/json'')
   \<and> (endswith p ''.svg'' \<longrightarrow> debug_guess_type g p = ''image/svg+xml'')
   \<and> (endswith p ''.JS'' \<or> endswith p ''.CSS'' \<or> endswith p ''.JSON'' \<or> endswith p ''.SVG''
        \<longrightarrow> debug_guess_type g p = g p)"
proof -
  have no: "\<not> (endswith p a \<and> endswith p b)" if "\<not> suffix a b" "\<not> suffix b a" for a b
    using endswith_both [of p a b] that by blast
  have d: "\<not> (endswith p a \<and> endswith p b)"
    if "a \<in> set [''.js'', ''.css'', ''.json'', ''.svg'']"
      "b \<in> set [''.js'', ''.css'', ''.json'', ''.svg'', ''.JS'', ''.CSS'', ''.JSON'', ''.SVG'']"
      "a \<noteq> b" for a b
    using that by (intro no) (auto simp: suffix_to_prefix)
  show ?thesis
    unfolding debug_guess_type_def
    using d [of "''.js''" "''.css''"] d [of "''.js''" "''.json''"] d [of "''.js''" "''.svg''"]
      d [of "''.css''" "''.json''"] d [of "''.css''" "''.svg''"] d [of "''.json''" "''.svg''"]
      d [of "''.js''" "''.JS''"] d [of "''.css''" "''.JS''"]
      d [of "''.json''" "''.JS''"] d [of "''.svg''" "''.JS''"]
      d [of "''.js''" "''.CSS''"] d [of "''.css''" "''.CSS''"]
      d [of "''.json''" "''.CSS''"] d [of "''.svg''" "''.CSS''"]
      d [of "''.js''" "''.JSON''"] d [of "''.css''" "''.JSON''"]
      d [of "''.json''" "''.JSON''"] d [of "''.svg''" "''.JSON''"]
      d [of "''.js''" "''.SVG''"] d [of "''.css''" "''.SVG''"]
      d [of "''.json''" "''.SVG''"] d [of "''.svg''" "''.SVG''"]
    by auto
qed

theorem debug_guess_type_witness:
  "debug_guess_type (\<lambda>p. ''text/plain'') ''/static/app.js'' = ''application/javascript''
   \<and> debug_guess_type (\<lambda>p. ''text/plain'') ''/static/site.css'' = ''text/css''
   \<and> debug_guess_type (\<lambda>p. ''text/plain'') ''/data/items.json'' = ''application/json''
   \<and> debug_guess_type (\<lambda>p. ''text/plain'') ''/img/logo.svg'' = ''image/svg+xml''
   \<and> debug_guess_type (\<lambda>p. ''text/plain'') ''/static/APP.JS'' = ''text/plain''"
  using debug_guess_type_overrides [of "''/static/app.js''" "\<lambda>p. ''text/plain''"]
    debug_guess_type_overrides [of "''/static/site.css''" "\<lambda>p. ''text/plain''"]
    debug_guess_type_overrides [of "''/data/items.json''" "\<lambda>p. ''text/plain''"]
    debug_guess_type_overrides [of "''/img/logo.svg''" "\<lambda>p. ''text/plain''"]
    debug_guess_type_overrides [of "''/static/APP.JS''" "\<lambda>p. ''text/plain''"]
  by (simp add: endswith_def suffix_to_prefix)

end
